theory Spec2Isabelle
  imports Main "HOL-Library.Word"
begin

section \<open>Data model of package release (src/release/instance.go)\<close>

text \<open>
  The file under verification uses types of the packages flux, instance and platform
  whose declarations are not among the sources. Each is modelled by the fields and
  operations that instance.go itself reads or writes.

  A flux.ServiceID is an identifier that \<open>Components()\<close> splits into a namespace and a
  service name. The splitting function is a parameter of the model (\<open>Components\<close> in
  the record \<open>Deps\<close> below).
\<close>

type_synonym ServiceID = string

text \<open>
  flux.ImageID: \<open>summariseUpdate\<close> reads the field \<open>Tag\<close> of the target image and
  formats the whole current image with the verb \<open>%s\<close>. The record keeps the tag apart
  from the rest of the reference; how \<open>%s\<close> renders a whole image reference is a
  parameter (\<open>ImageString\<close>).
\<close>

record ImageID =
  Repository :: string
  Tag :: string

record ContainerUpdate =
  Container :: string
  Current :: ImageID
  Target :: ImageID

text \<open>
  flux.ReleaseStatus is a string type. The three constants the code names are
  constructors; \<open>ReleaseStatusOther s\<close> is any other value \<open>s\<close> of the type (the zero
  value is \<open>ReleaseStatusOther []\<close>).
\<close>

datatype ReleaseStatus =
    ReleaseStatusSuccess
  | ReleaseStatusFailed
  | ReleaseStatusUnknown
  | ReleaseStatusOther string

record ServiceResult =
  Status :: ReleaseStatus
  Error :: string
  PerContainer :: "ContainerUpdate list"

text \<open>
  flux.ReleaseResult is a Go map from ServiceID to ServiceResult, passed by reference
  and assumed non-nil. Reading a key that is absent yields the zero ServiceResult.
\<close>

type_synonym ReleaseResult = "ServiceID \<rightharpoonup> ServiceResult"

definition zeroServiceResult :: ServiceResult where
  "zeroServiceResult = \<lparr>Status = ReleaseStatusOther [], Error = [], PerContainer = []\<rparr>"

definition index :: "ReleaseResult \<Rightarrow> ServiceID \<Rightarrow> ServiceResult" where
  "index results k = (case results k of None \<Rightarrow> zeroServiceResult | Some r \<Rightarrow> r)"

text \<open>release.ServiceUpdate, restricted to the fields \<open>applyChanges\<close> reads.\<close>

record ServiceUpdate =
  ServiceID :: ServiceID
  ManifestBytes :: "8 word list"
  Updates :: "ContainerUpdate list"

record ServiceDefinition =
  DefServiceID :: ServiceID
  NewDefinition :: "8 word list"
  Async :: bool

text \<open>
  A non-nil Go \<open>error\<close> returned by the platform. \<open>platform.ApplyError\<close> is a map from
  ServiceID to the error of that service, kept here as the map from ServiceID to that
  error's message (its \<open>Error()\<close>). Every other error value is \<open>OtherError msg\<close>, \<open>msg\<close>
  being its \<open>Error()\<close>. A nil error is \<open>None\<close> of type \<open>GoError option\<close>.
\<close>

datatype GoError =
    ApplyError "ServiceID \<rightharpoonup> string"
  | OtherError string

text \<open>
  What the instance is asked to do, in order: \<open>inst.LogEvent\<close>, \<open>inst.Log\<close> and
  \<open>inst.PlatformApply\<close>. The instance is its history of calls and the state of the
  platform behind it.
\<close>

datatype Event =
    EvLogEvent string string string
  | EvLog "string list"
  | EvPlatformApply "ServiceDefinition list"

record 'p Instance =
  events :: "Event list"
  platform :: 'p

text \<open>
  The declarations the function depends on and the sources do not hold: the two
  reserved service names, \<open>ServiceID.Components\<close>, the \<open>%s\<close> rendering of an ImageID, and
  the platform's apply operation, which answers nil or an error and may change the
  platform.
\<close>

record 'p Deps =
  FluxServiceName :: string
  FluxDaemonName :: string
  Components :: "ServiceID \<Rightarrow> string \<times> string"
  ImageString :: "ImageID \<Rightarrow> string"
  Apply :: "ServiceDefinition list \<Rightarrow> 'p \<Rightarrow> GoError option \<times> 'p"

definition LogEvent :: "string \<Rightarrow> string \<Rightarrow> string \<Rightarrow> 'p Instance \<Rightarrow> 'p Instance" where
  "LogEvent namespace serviceName msg inst =
     inst\<lparr>events := events inst @ [EvLogEvent namespace serviceName msg]\<rparr>"

definition Log :: "string list \<Rightarrow> 'p Instance \<Rightarrow> 'p Instance" where
  "Log keyvals inst = inst\<lparr>events := events inst @ [EvLog keyvals]\<rparr>"

definition PlatformApply ::
  "'p Deps \<Rightarrow> ServiceDefinition list \<Rightarrow> 'p Instance \<Rightarrow> GoError option \<times> 'p Instance" where
  "PlatformApply D ds inst =
     (let (err, p) = Apply D ds (platform inst)
      in (err, inst\<lparr>events := events inst @ [EvPlatformApply ds], platform := p\<rparr>))"

section \<open>summariseUpdate\<close>

text \<open>\<open>strings.Join\<close>.\<close>

fun Join :: "string list \<Rightarrow> string \<Rightarrow> string" where
  "Join [] sep = []"
| "Join [x] sep = x"
| "Join (x # y # ys) sep = x @ sep @ Join (y # ys) sep"

text \<open>\<open>fmt.Sprintf("%s (%s -> %s)", c.Container, c.Current, c.Target.Tag)\<close>.\<close>

definition individualUpdate :: "(ImageID \<Rightarrow> string) \<Rightarrow> ContainerUpdate \<Rightarrow> string" where
  "individualUpdate img c =
     Container c @ '' ('' @ img (Current c) @ '' -> '' @ Tag (Target c) @ '')''"

definition summariseUpdate :: "(ImageID \<Rightarrow> string) \<Rightarrow> ContainerUpdate list \<Rightarrow> string" where
  "summariseUpdate img containerUpdates =
     (if length containerUpdates = 0 then ''(no image changes)''
      else Join (map (individualUpdate img) containerUpdates) '', '')"

section \<open>applyChanges\<close>

text \<open>
  The local variables \<open>defs\<close> and \<open>asyncDefs\<close>, the ledger \<open>results\<close> (mutated in place
  by the code) and the instance, threaded through the function. The pointers the
  function receives (the instance and the updates) are assumed non-nil.
\<close>

record 'p Frame =
  defs :: "ServiceDefinition list"
  asyncDefs :: "ServiceDefinition list"
  results :: ReleaseResult
  inst :: "'p Instance"

text \<open>The \<open>case FluxServiceName, FluxDaemonName\<close> of the first switch.\<close>

definition isSelf :: "'p Deps \<Rightarrow> ServiceID \<Rightarrow> bool" where
  "isSelf D k =
     (let (namespace, serviceName) = Components D k
      in serviceName = FluxServiceName D \<or> serviceName = FluxDaemonName D)"

text \<open>Body of the first loop (lines 46 to 71), for one update.\<close>

definition collect :: "'p Deps \<Rightarrow> ServiceUpdate \<Rightarrow> 'p Frame \<Rightarrow> 'p Frame" where
  "collect D update f =
     (let (namespace, serviceName) = Components D (ServiceID update);
          updateMsg = summariseUpdate (ImageString D) (Updates update);
          f1 = (if serviceName = FluxServiceName D \<or> serviceName = FluxDaemonName D
                then f\<lparr>inst := LogEvent namespace serviceName
                                 (''Starting '' @ updateMsg @ ''. (no result expected)'') (inst f),
                       asyncDefs := asyncDefs f @
                         [\<lparr>DefServiceID = ServiceID update,
                           NewDefinition = ManifestBytes update, Async = True\<rparr>]\<rparr>
                else f\<lparr>inst := LogEvent namespace serviceName (''Starting '' @ updateMsg) (inst f),
                       defs := defs f @
                         [\<lparr>DefServiceID = ServiceID update,
                           NewDefinition = ManifestBytes update, Async = False\<rparr>]\<rparr>);
          result = index (results f1) (ServiceID update)
      in f1\<lparr>results := (results f1)(ServiceID update \<mapsto>
              \<lparr>Status = ReleaseStatusSuccess, Error = Error result,
               PerContainer = PerContainer result\<rparr>)\<rparr>)"

text \<open>
  The loop over a \<open>platform.ApplyError\<close> (lines 77 to 82). Go visits every key of the
  map once, in no fixed order, and writes the ledger at that key only, so the loop is
  the pointwise override of the ledger.
\<close>

definition markFailed :: "(ServiceID \<rightharpoonup> string) \<Rightarrow> ReleaseResult \<Rightarrow> ReleaseResult" where
  "markFailed err res =
     (\<lambda>k. case err k of
            None \<Rightarrow> res k
          | Some applyErr \<Rightarrow>
              Some \<lparr>Status = ReleaseStatusFailed, Error = applyErr, PerContainer = []\<rparr>)"

text \<open>Body of the loop of the default case (lines 84 to 89).\<close>

definition markUnknown :: "string \<Rightarrow> ServiceUpdate \<Rightarrow> ReleaseResult \<Rightarrow> ReleaseResult" where
  "markUnknown msg update res =
     res(ServiceID update \<mapsto>
           \<lparr>Status = ReleaseStatusUnknown, Error = msg, PerContainer = []\<rparr>)"

text \<open>
  Body of the reporting loop (lines 99 to 114), for one synchronous definition. In the
  default case \<open>def.ServiceID.String()\<close> is the identifier itself and
  \<open>string(result.Status)\<close> is the string of a status that is none of the three
  constants.
\<close>

definition report :: "'p Deps \<Rightarrow> ServiceDefinition \<Rightarrow> 'p Frame \<Rightarrow> 'p Frame" where
  "report D def f =
     (let result = index (results f) (DefServiceID def);
          (namespace, serviceName) = Components D (DefServiceID def);
          updateMsg = summariseUpdate (ImageString D) (PerContainer result)
      in case Status result of
           ReleaseStatusSuccess \<Rightarrow>
             f\<lparr>inst := LogEvent namespace serviceName
                         (''Release '' @ updateMsg @ '' succeeded'') (inst f)\<rparr>
         | ReleaseStatusFailed \<Rightarrow>
             f\<lparr>inst := LogEvent namespace serviceName
                         (''Release '' @ updateMsg @ '' failed: '' @ Error result) (inst f)\<rparr>
         | ReleaseStatusUnknown \<Rightarrow>
             f\<lparr>inst := LogEvent namespace serviceName
                         (''Release '' @ updateMsg @ '' outcome unknown: '' @ Error result)
                         (inst f)\<rparr>
         | ReleaseStatusOther s \<Rightarrow>
             f\<lparr>inst := Log [''error'', ''unexpected release status'',
                             ''service-id'', DefServiceID def, ''status'', s] (inst f)\<rparr>)"

text \<open>
  Lines 98 to 127: report the synchronous updates, then apply the asynchronous ones,
  if any, dropping what the platform answers, and return \<open>transactionErr\<close>.
\<close>

definition reportAndRelease ::
  "'p Deps \<Rightarrow> GoError option \<Rightarrow> 'p Frame \<Rightarrow> GoError option \<times> 'p Frame" where
  "reportAndRelease D transactionErr f =
     (let f1 = fold (report D) (defs f) f;
          f2 = (if length (asyncDefs f1) > 0
                then f1\<lparr>inst := snd (PlatformApply D (asyncDefs f1) (inst f1))\<rparr>
                else f1)
      in (transactionErr, f2))"

definition applyChanges ::
  "'p Deps \<Rightarrow> 'p Instance \<Rightarrow> ServiceUpdate list \<Rightarrow> ReleaseResult \<Rightarrow> GoError option \<times> 'p Frame" where
  "applyChanges D i updates res =
     (let f0 = \<lparr>defs = [], asyncDefs = [], results = res, inst = i\<rparr>;
          f1 = fold (collect D) updates f0;
          (transactionErr, i2) = PlatformApply D (defs f1) (inst f1);
          f2 = f1\<lparr>inst := i2\<rparr>
      in case transactionErr of
           None \<Rightarrow> reportAndRelease D transactionErr f2
         | Some (ApplyError err) \<Rightarrow>
             reportAndRelease D transactionErr (f2\<lparr>results := markFailed err (results f2)\<rparr>)
         | Some (OtherError msg) \<Rightarrow>
             (transactionErr, f2\<lparr>results := fold (markUnknown msg) updates (results f2)\<rparr>))"

section \<open>Vocabulary of the statements\<close>

text \<open>
  The two partitions of the batch, as lists of definitions in input order: what the
  first loop leaves in \<open>defs\<close> and \<open>asyncDefs\<close> (lemmas \<open>fold_collect_defs\<close> and
  \<open>fold_collect_asyncDefs\<close>).
\<close>

definition ordinaryPartition :: "'p Deps \<Rightarrow> ServiceUpdate list \<Rightarrow> ServiceDefinition list" where
  "ordinaryPartition D updates =
     map (\<lambda>u. \<lparr>DefServiceID = ServiceID u, NewDefinition = ManifestBytes u, Async = False\<rparr>)
       (filter (\<lambda>u. \<not> isSelf D (ServiceID u)) updates)"

definition selfPartition :: "'p Deps \<Rightarrow> ServiceUpdate list \<Rightarrow> ServiceDefinition list" where
  "selfPartition D updates =
     map (\<lambda>u. \<lparr>DefServiceID = ServiceID u, NewDefinition = ManifestBytes u, Async = True\<rparr>)
       (filter (\<lambda>u. isSelf D (ServiceID u)) updates)"

text \<open>The event the first loop logs for one update.\<close>

definition startingEvent :: "'p Deps \<Rightarrow> ServiceUpdate \<Rightarrow> Event" where
  "startingEvent D u =
     EvLogEvent (fst (Components D (ServiceID u))) (snd (Components D (ServiceID u)))
       (if isSelf D (ServiceID u)
        then ''Starting '' @ summariseUpdate (ImageString D) (Updates u) @ ''. (no result expected)''
        else ''Starting '' @ summariseUpdate (ImageString D) (Updates u))"

text \<open>
  The ledger after the first loop: every service of the batch has status Success and
  the \<open>Error\<close> and \<open>PerContainer\<close> the ledger held before (lemma \<open>fold_collect_results\<close>).
\<close>

definition primed :: "ReleaseResult \<Rightarrow> ServiceUpdate list \<Rightarrow> ReleaseResult" where
  "primed res updates =
     (\<lambda>k. if k \<in> ServiceID ` set updates
          then Some \<lparr>Status = ReleaseStatusSuccess, Error = Error (index res k),
                     PerContainer = PerContainer (index res k)\<rparr>
          else res k)"

text \<open>The event the reporting loop emits for one definition, given the ledger.\<close>

definition reportEvent :: "'p Deps \<Rightarrow> ReleaseResult \<Rightarrow> ServiceDefinition \<Rightarrow> Event" where
  "reportEvent D res d =
     (let result = index res (DefServiceID d);
          namespace = fst (Components D (DefServiceID d));
          serviceName = snd (Components D (DefServiceID d));
          updateMsg = summariseUpdate (ImageString D) (PerContainer result)
      in case Status result of
           ReleaseStatusSuccess \<Rightarrow>
             EvLogEvent namespace serviceName (''Release '' @ updateMsg @ '' succeeded'')
         | ReleaseStatusFailed \<Rightarrow>
             EvLogEvent namespace serviceName
               (''Release '' @ updateMsg @ '' failed: '' @ Error result)
         | ReleaseStatusUnknown \<Rightarrow>
             EvLogEvent namespace serviceName
               (''Release '' @ updateMsg @ '' outcome unknown: '' @ Error result)
         | ReleaseStatusOther s \<Rightarrow>
             EvLog [''error'', ''unexpected release status'',
                    ''service-id'', DefServiceID d, ''status'', s])"

text \<open>What the platform answers to the apply of the ordinary partition.\<close>

definition ordinaryApplyResult :: "'p Deps \<Rightarrow> 'p Instance \<Rightarrow> ServiceUpdate list \<Rightarrow> GoError option" where
  "ordinaryApplyResult D i updates = fst (Apply D (ordinaryPartition D updates) (platform i))"

text \<open>Whether an event is a call of \<open>inst.PlatformApply\<close>.\<close>

fun isPlatformApply :: "Event \<Rightarrow> bool" where
  "isPlatformApply (EvPlatformApply ds) = True"
| "isPlatformApply (EvLogEvent namespace serviceName msg) = False"
| "isPlatformApply (EvLog keyvals) = False"

text \<open>
  Whether the answer of the platform is a coverall error: a non-nil error that is not
  an ApplyError (the default case of the type switch).
\<close>

definition coverall :: "GoError option \<Rightarrow> bool" where
  "coverall e = (case e of Some (OtherError msg) \<Rightarrow> True | _ \<Rightarrow> False)"

text \<open>
  The result message of an outcome in the words of the specification: "Release
  <summary> succeeded" for Success and "Release <summary> failed: <errorMessage>"
  otherwise, the summary being that of the outcome's own container changes; and the
  event that carries it.
\<close>

definition resultMessage :: "(ImageID \<Rightarrow> string) \<Rightarrow> ServiceResult \<Rightarrow> string" where
  "resultMessage img outcome =
     (if Status outcome = ReleaseStatusSuccess
      then ''Release '' @ summariseUpdate img (PerContainer outcome) @ '' succeeded''
      else ''Release '' @ summariseUpdate img (PerContainer outcome) @ '' failed: '' @
           Error outcome)"

definition resultEvent :: "'p Deps \<Rightarrow> ReleaseResult \<Rightarrow> ServiceDefinition \<Rightarrow> Event" where
  "resultEvent D res d =
     EvLogEvent (fst (Components D (DefServiceID d))) (snd (Components D (DefServiceID d)))
       (resultMessage (ImageString D) (index res (DefServiceID d)))"

text \<open>
  The frame with which the reporting loop is entered when the answer of the platform
  is not a coverall error (lemma \<open>applyChanges_reporting\<close>).
\<close>

definition reportingFrame ::
  "'p Deps \<Rightarrow> 'p Instance \<Rightarrow> ServiceUpdate list \<Rightarrow> ReleaseResult \<Rightarrow> 'p Frame" where
  "reportingFrame D i updates res =
     \<lparr>defs = ordinaryPartition D updates,
      asyncDefs = selfPartition D updates,
      results = (case ordinaryApplyResult D i updates of
                   Some (ApplyError err) \<Rightarrow> markFailed err (primed res updates)
                 | _ \<Rightarrow> primed res updates),
      inst = i\<lparr>events := events i @ map (startingEvent D) updates @
                          [EvPlatformApply (ordinaryPartition D updates)],
               platform := snd (Apply D (ordinaryPartition D updates) (platform i))\<rparr>\<rparr>"

text \<open>
  Lines 73 to 127 on their own: the ordinary apply, the switch on its error, the
  reporting loop and the self apply, from the frame the first loop leaves
  (lemma \<open>applyChanges_phases\<close>).
\<close>

definition applyAndReport ::
  "'p Deps \<Rightarrow> ServiceUpdate list \<Rightarrow> 'p Frame \<Rightarrow> GoError option \<times> 'p Frame" where
  "applyAndReport D updates f1 =
     (let (transactionErr, i2) = PlatformApply D (defs f1) (inst f1);
          f2 = f1\<lparr>inst := i2\<rparr>
      in case transactionErr of
           None \<Rightarrow> reportAndRelease D transactionErr f2
         | Some (ApplyError err) \<Rightarrow>
             reportAndRelease D transactionErr (f2\<lparr>results := markFailed err (results f2)\<rparr>)
         | Some (OtherError msg) \<Rightarrow>
             (transactionErr, f2\<lparr>results := fold (markUnknown msg) updates (results f2)\<rparr>))"

section \<open>A concrete instance\<close>

text \<open>
  An instance of the parameters for the concrete runs below: identifiers of the form
  namespace/service, an image reference rendered as repository:tag, and a platform
  that gives its answers from a list, one per call (nil once the list is used up).
\<close>

definition slashComponents :: "ServiceID \<Rightarrow> string \<times> string" where
  "slashComponents k =
     (takeWhile (\<lambda>c. c \<noteq> CHR ''/'') k, drop 1 (dropWhile (\<lambda>c. c \<noteq> CHR ''/'') k))"

definition refString :: "ImageID \<Rightarrow> string" where
  "refString ref = Repository ref @ '':'' @ Tag ref"

definition scripted ::
  "ServiceDefinition list \<Rightarrow> GoError option list \<Rightarrow> GoError option \<times> GoError option list" where
  "scripted ds answers = (case answers of [] \<Rightarrow> (None, []) | a # rest \<Rightarrow> (a, rest))"

definition exampleDeps :: "GoError option list Deps" where
  "exampleDeps =
     \<lparr>FluxServiceName = ''fluxsvc'', FluxDaemonName = ''fluxd'',
      Components = slashComponents, ImageString = refString, Apply = scripted\<rparr>"

definition appChange :: ContainerUpdate where
  "appChange =
     \<lparr>Container = ''app'',
      Current = \<lparr>Repository = ''repo/app'', Tag = ''v1''\<rparr>,
      Target = \<lparr>Repository = ''repo/app'', Tag = ''v2''\<rparr>\<rparr>"

definition webUpdate :: ServiceUpdate where
  "webUpdate = \<lparr>ServiceID = ''ns/web'', ManifestBytes = [1, 2], Updates = [appChange]\<rparr>"

definition apiUpdate :: ServiceUpdate where
  "apiUpdate = \<lparr>ServiceID = ''ns/api'', ManifestBytes = [3], Updates = []\<rparr>"

definition fluxUpdate :: ServiceUpdate where
  "fluxUpdate = \<lparr>ServiceID = ''ns/fluxsvc'', ManifestBytes = [], Updates = []\<rparr>"

definition platformAnswering :: "GoError option list \<Rightarrow> GoError option list Instance" where
  "platformAnswering answers = \<lparr>events = [], platform = answers\<rparr>"

text \<open>
  A platform that answers every apply of asynchronous definitions with an error, and
  any other apply from the list.
\<close>

definition refusingSelf ::
  "ServiceDefinition list \<Rightarrow> GoError option list \<Rightarrow> GoError option \<times> GoError option list" where
  "refusingSelf ds answers =
     (if list_ex Async ds then (Some (OtherError ''connection lost''), answers)
      else scripted ds answers)"

section \<open>The loops in closed form\<close>

lemmas example_defs =
  exampleDeps_def slashComponents_def refString_def scripted_def appChange_def webUpdate_def
  apiUpdate_def fluxUpdate_def platformAnswering_def ordinaryApplyResult_def
  ordinaryPartition_def selfPartition_def isSelf_def

lemma isSelf_snd:
  "isSelf D k \<longleftrightarrow> snd (Components D k) = FluxServiceName D \<or> snd (Components D k) = FluxDaemonName D"
  by (simp add: isSelf_def case_prod_beta)

lemma collect_defs:
  "defs (collect D u f) =
     (if isSelf D (ServiceID u) then defs f
      else defs f @ [\<lparr>DefServiceID = ServiceID u, NewDefinition = ManifestBytes u, Async = False\<rparr>])"
  by (simp add: collect_def isSelf_snd case_prod_beta Let_def)

lemma collect_asyncDefs:
  "asyncDefs (collect D u f) =
     (if isSelf D (ServiceID u)
      then asyncDefs f @ [\<lparr>DefServiceID = ServiceID u, NewDefinition = ManifestBytes u, Async = True\<rparr>]
      else asyncDefs f)"
  by (simp add: collect_def isSelf_snd case_prod_beta Let_def)

lemma collect_inst:
  "inst (collect D u f) = (inst f)\<lparr>events := events (inst f) @ [startingEvent D u]\<rparr>"
  by (simp add: collect_def isSelf_snd case_prod_beta Let_def startingEvent_def LogEvent_def)

lemma collect_results:
  "results (collect D u f) =
     (results f)(ServiceID u \<mapsto>
        \<lparr>Status = ReleaseStatusSuccess, Error = Error (index (results f) (ServiceID u)),
         PerContainer = PerContainer (index (results f) (ServiceID u))\<rparr>)"
  by (simp add: collect_def case_prod_beta Let_def)

lemma fold_collect_defs:
  "defs (fold (collect D) us f) = defs f @ ordinaryPartition D us"
  by (induction us arbitrary: f) (simp_all add: collect_defs ordinaryPartition_def)

lemma fold_collect_asyncDefs:
  "asyncDefs (fold (collect D) us f) = asyncDefs f @ selfPartition D us"
  by (induction us arbitrary: f) (simp_all add: collect_asyncDefs selfPartition_def)

lemma fold_collect_inst:
  "inst (fold (collect D) us f) =
     (inst f)\<lparr>events := events (inst f) @ map (startingEvent D) us\<rparr>"
  by (induction us arbitrary: f) (simp_all add: collect_inst)

lemma primed_idem_fields:
  "Error (index (primed res us) k) = Error (index res k)"
  "PerContainer (index (primed res us) k) = PerContainer (index res k)"
  by (simp_all add: primed_def index_def)

lemma fold_collect_results:
  "results (fold (collect D) us f) = primed (results f) us"
proof (induction us arbitrary: f)
  case Nil
  show ?case by (simp add: primed_def)
next
  case (Cons u us)
  show ?case
    by (rule ext) (simp add: Cons collect_results primed_def index_def)
qed

lemma report_eq:
  "report D d f = f\<lparr>inst := (inst f)\<lparr>events := events (inst f) @ [reportEvent D (results f) d]\<rparr>\<rparr>"
  by (simp add: report_def reportEvent_def Let_def case_prod_beta LogEvent_def Log_def
           split: ReleaseStatus.split)

lemma fold_report:
  "fold (report D) ds f =
     f\<lparr>inst := (inst f)\<lparr>events := events (inst f) @ map (reportEvent D (results f)) ds\<rparr>\<rparr>"
  by (induction ds arbitrary: f) (simp_all add: report_eq)

lemma reportAndRelease_fst: "fst (reportAndRelease D e f) = e"
  by (simp add: reportAndRelease_def Let_def)

lemma reportAndRelease_results: "results (snd (reportAndRelease D e f)) = results f"
  by (simp add: reportAndRelease_def Let_def fold_report)

lemma reportAndRelease_defs:
  "defs (snd (reportAndRelease D e f)) = defs f"
  "asyncDefs (snd (reportAndRelease D e f)) = asyncDefs f"
  by (simp_all add: reportAndRelease_def Let_def fold_report)

lemma reportAndRelease_events:
  "events (inst (snd (reportAndRelease D e f))) =
     events (inst f) @ map (reportEvent D (results f)) (defs f) @
     (if asyncDefs f \<noteq> [] then [EvPlatformApply (asyncDefs f)] else [])"
  by (simp add: reportAndRelease_def Let_def fold_report PlatformApply_def case_prod_beta)

lemma applyChanges_fst:
  "fst (applyChanges D i us res) = ordinaryApplyResult D i us"
  by (simp add: applyChanges_def ordinaryApplyResult_def Let_def PlatformApply_def case_prod_beta
        fold_collect_defs fold_collect_inst reportAndRelease_fst
      split: option.split GoError.split)

lemma applyChanges_defs:
  "defs (snd (applyChanges D i us res)) = ordinaryPartition D us"
  by (simp add: applyChanges_def Let_def PlatformApply_def case_prod_beta
        fold_collect_defs reportAndRelease_defs
      split: option.split GoError.split)

lemma applyChanges_asyncDefs:
  "asyncDefs (snd (applyChanges D i us res)) = selfPartition D us"
  by (simp add: applyChanges_def Let_def PlatformApply_def case_prod_beta
        fold_collect_asyncDefs reportAndRelease_defs
      split: option.split GoError.split)

lemma applyChanges_results:
  "results (snd (applyChanges D i us res)) =
     (case ordinaryApplyResult D i us of
        None \<Rightarrow> primed res us
      | Some (ApplyError err) \<Rightarrow> markFailed err (primed res us)
      | Some (OtherError msg) \<Rightarrow> fold (markUnknown msg) us (primed res us))"
  by (simp add: applyChanges_def ordinaryApplyResult_def Let_def PlatformApply_def case_prod_beta
        fold_collect_defs fold_collect_inst fold_collect_results reportAndRelease_results
      split: option.split GoError.split)

lemma applyChanges_events:
  "events (inst (snd (applyChanges D i us res))) =
     events i @ map (startingEvent D) us @ [EvPlatformApply (ordinaryPartition D us)] @
     (case ordinaryApplyResult D i us of
        Some (OtherError msg) \<Rightarrow> []
      | _ \<Rightarrow> map (reportEvent D (results (snd (applyChanges D i us res))))
               (ordinaryPartition D us) @
             (if selfPartition D us \<noteq> [] then [EvPlatformApply (selfPartition D us)] else []))"
  by (simp add: applyChanges_def ordinaryApplyResult_def Let_def PlatformApply_def case_prod_beta
        fold_collect_defs fold_collect_asyncDefs fold_collect_inst fold_collect_results
        reportAndRelease_results reportAndRelease_events
      split: option.split GoError.split)

lemma fold_markUnknown:
  "fold (markUnknown msg) us res =
     (\<lambda>k. if k \<in> ServiceID ` set us
          then Some \<lparr>Status = ReleaseStatusUnknown, Error = msg, PerContainer = []\<rparr>
          else res k)"
proof (induction us arbitrary: res)
  case Nil
  show ?case by simp
next
  case (Cons u us)
  have "markUnknown msg u res = res(ServiceID u \<mapsto>
      \<lparr>Status = ReleaseStatusUnknown, Error = msg, PerContainer = []\<rparr>)"
    by (simp add: markUnknown_def)
  then show ?case by (auto simp add: Cons)
qed

lemma not_coverall_cases:
  "\<not> coverall e \<Longrightarrow> e = None \<or> (\<exists>err. e = Some (ApplyError err))"
  by (auto simp: coverall_def split: option.splits GoError.splits)

lemma no_apply_in_starting: "filter isPlatformApply (map (startingEvent D) us) = []"
  by (induction us) (simp_all add: startingEvent_def)

lemma no_apply_in_report: "filter isPlatformApply (map (reportEvent D r) ds) = []"
  by (induction ds) (simp_all add: reportEvent_def Let_def split: ReleaseStatus.split)

lemma fold_collect_frame:
  "fold (collect D) us \<lparr>defs = [], asyncDefs = [], results = res, inst = i\<rparr> =
     \<lparr>defs = ordinaryPartition D us, asyncDefs = selfPartition D us,
      results = primed res us,
      inst = i\<lparr>events := events i @ map (startingEvent D) us\<rparr>\<rparr>"
  by (rule Frame.equality)
     (simp_all add: fold_collect_defs fold_collect_asyncDefs fold_collect_results
        fold_collect_inst)

lemma applyChanges_reporting:
  assumes "\<not> coverall (ordinaryApplyResult D i us)"
  shows "applyChanges D i us res =
           reportAndRelease D (ordinaryApplyResult D i us) (reportingFrame D i us res)"
  using not_coverall_cases [OF assms]
  by (auto simp add: applyChanges_def fold_collect_frame ordinaryApplyResult_def
        reportingFrame_def PlatformApply_def Let_def case_prod_beta)

lemma primed_status:
  "k \<in> ServiceID ` set us \<Longrightarrow> Status (index (primed res us) k) = ReleaseStatusSuccess"
  by (simp add: primed_def index_def)

lemma markFailed_status:
  "Status (index (markFailed err r) k) =
     (case err k of None \<Rightarrow> Status (index r k) | Some c \<Rightarrow> ReleaseStatusFailed)"
  by (simp add: markFailed_def index_def split: option.split)

lemma ordinaryPartition_ids:
  "d \<in> set (ordinaryPartition D us) \<Longrightarrow> DefServiceID d \<in> ServiceID ` set us"
  by (auto simp: ordinaryPartition_def)

lemma reportingFrame_status:
  assumes "d \<in> set (ordinaryPartition D us)"
  shows "Status (index (results (reportingFrame D i us res)) (DefServiceID d)) =
           ReleaseStatusSuccess \<or>
         Status (index (results (reportingFrame D i us res)) (DefServiceID d)) =
           ReleaseStatusFailed"
  using ordinaryPartition_ids [OF assms]
  by (simp add: reportingFrame_def markFailed_status primed_status
        split: option.split GoError.split)

lemma reportEvent_result:
  assumes "Status (index r (DefServiceID d)) = ReleaseStatusSuccess \<or>
           Status (index r (DefServiceID d)) = ReleaseStatusFailed"
  shows "reportEvent D r d = resultEvent D r d"
  using assms by (auto simp: reportEvent_def resultEvent_def resultMessage_def Let_def)

lemma isSelf_cong:
  assumes "FluxServiceName D' = FluxServiceName D" "FluxDaemonName D' = FluxDaemonName D"
    "Components D' = Components D"
  shows "isSelf D' = isSelf D"
  using assms by (simp add: isSelf_def fun_eq_iff)

lemma applyChanges_trace:
  "events (inst (snd (applyChanges D i us res))) =
     events i @ map (startingEvent D) us @ [EvPlatformApply (ordinaryPartition D us)] @
     (if coverall (ordinaryApplyResult D i us) then []
      else map (reportEvent D (results (snd (applyChanges D i us res))))
             (ordinaryPartition D us) @
           (if selfPartition D us \<noteq> [] then [EvPlatformApply (selfPartition D us)] else []))"
  by (simp add: applyChanges_events [of D i us res] coverall_def
        split: option.split GoError.split)

lemma markFailed_success:
  "Status (index (markFailed err r) k) = ReleaseStatusSuccess \<Longrightarrow>
     index (markFailed err r) k = index r k"
  by (cases "err k") (simp_all add: markFailed_def index_def)

lemma reportingFrame_percontainer:
  assumes "Status (index (results (reportingFrame D i us res)) k) = ReleaseStatusSuccess"
  shows "PerContainer (index (results (reportingFrame D i us res)) k) =
           PerContainer (index res k)"
proof (cases "ordinaryApplyResult D i us")
  case None
  then show ?thesis by (simp add: reportingFrame_def primed_idem_fields)
next
  case (Some e)
  show ?thesis
  proof (cases e)
    case (ApplyError err)
    with Some assms have "Status (index (markFailed err (primed res us)) k) =
        ReleaseStatusSuccess"
      by (simp add: reportingFrame_def)
    from markFailed_success [OF this] Some ApplyError show ?thesis
      by (simp add: reportingFrame_def primed_idem_fields)
  next
    case (OtherError msg)
    with Some show ?thesis by (simp add: reportingFrame_def primed_idem_fields)
  qed
qed

lemma applyChanges_phases:
  "applyChanges D i us res =
     applyAndReport D us
       (fold (collect D) us \<lparr>defs = [], asyncDefs = [], results = res, inst = i\<rparr>)"
  by (simp add: applyChanges_def applyAndReport_def Let_def)

lemma applyAndReport_first_event:
  "take (Suc (length (events (inst f)))) (events (inst (snd (applyAndReport D us f)))) =
     events (inst f) @ [EvPlatformApply (defs f)]"
  by (simp add: applyAndReport_def Let_def PlatformApply_def case_prod_beta
        reportAndRelease_events split: option.split GoError.split)

lemma applyChanges_results_pointwise:
  "results (snd (applyChanges D i us res)) k =
     (case ordinaryApplyResult D i us of
        None \<Rightarrow> primed res us k
      | Some (ApplyError err) \<Rightarrow>
          (case err k of
             Some cause \<Rightarrow>
               Some \<lparr>Status = ReleaseStatusFailed, Error = cause, PerContainer = []\<rparr>
           | None \<Rightarrow> primed res us k)
      | Some (OtherError msg) \<Rightarrow>
          (if k \<in> ServiceID ` set us
           then Some \<lparr>Status = ReleaseStatusUnknown, Error = msg, PerContainer = []\<rparr>
           else primed res us k))"
  by (simp add: applyChanges_results markFailed_def fold_markUnknown
        split: option.split GoError.split)

lemma applyChanges_result_trace:
  assumes "\<not> coverall (ordinaryApplyResult D i us)"
  shows "events (inst (snd (applyChanges D i us res))) =
           events i @ map (startingEvent D) us @ [EvPlatformApply (ordinaryPartition D us)] @
           map (resultEvent D (results (snd (applyChanges D i us res))))
             (ordinaryPartition D us) @
           (if selfPartition D us \<noteq> [] then [EvPlatformApply (selfPartition D us)] else [])"
proof -
  let ?f = "snd (applyChanges D i us res)"
  have fin: "results ?f = results (reportingFrame D i us res)"
    by (simp add: applyChanges_reporting [OF assms] reportAndRelease_results)
  have "\<forall>d \<in> set (ordinaryPartition D us).
      Status (index (results ?f) (DefServiceID d)) = ReleaseStatusSuccess \<or>
      Status (index (results ?f) (DefServiceID d)) = ReleaseStatusFailed"
    using reportingFrame_status [of _ D us i res] by (simp add: fin)
  then have "map (reportEvent D (results ?f)) (ordinaryPartition D us) =
      map (resultEvent D (results ?f)) (ordinaryPartition D us)"
    by (simp add: reportEvent_result)
  then show ?thesis
    using assms by (simp add: applyChanges_trace [of D i us res])
qed

lemma startingEvent_no_apply: "\<not> isPlatformApply (startingEvent D u)"
  by (simp add: startingEvent_def)

lemma reportEvent_no_apply: "\<not> isPlatformApply (reportEvent D r d)"
  by (simp add: reportEvent_def Let_def split: ReleaseStatus.split)

section \<open>Coverall error\<close>

text \<open>
  C1. When the platform answers the apply of the ordinary partition with an error that
  is not an ApplyError, applyChanges returns that error, every service of the batch
  (ordinary or self) has the ledger entry Unknown with the error's message, and the
  instance has seen the starting events and the one apply of the ordinary partition
  and nothing after it: no result event and no apply of the self partition.
\<close>

theorem coverall_error_marks_whole_batch_unknown:
  assumes "ordinaryApplyResult D i updates = Some (OtherError msg)"
  shows "fst (applyChanges D i updates res) = Some (OtherError msg) \<and>
         (\<forall>u \<in> set updates.
            results (snd (applyChanges D i updates res)) (ServiceID u) =
              Some \<lparr>Status = ReleaseStatusUnknown, Error = msg, PerContainer = []\<rparr>) \<and>
         events (inst (snd (applyChanges D i updates res))) =
           events i @ map (startingEvent D) updates @
           [EvPlatformApply (ordinaryPartition D updates)]"
proof -
  have "fst (applyChanges D i updates res) = Some (OtherError msg)"
    using assms by (simp add: applyChanges_fst)
  moreover have "\<forall>u \<in> set updates.
      results (snd (applyChanges D i updates res)) (ServiceID u) =
        Some \<lparr>Status = ReleaseStatusUnknown, Error = msg, PerContainer = []\<rparr>"
    using assms by (simp add: applyChanges_results fold_markUnknown)
  moreover have "events (inst (snd (applyChanges D i updates res))) =
      events i @ map (startingEvent D) updates @ [EvPlatformApply (ordinaryPartition D updates)]"
    using assms by (simp add: applyChanges_events)
  ultimately show ?thesis by blast
qed

theorem coverall_error_marks_whole_batch_unknown_witness:
  "ordinaryApplyResult exampleDeps (platformAnswering [Some (OtherError ''platform down'')])
      [webUpdate, fluxUpdate, apiUpdate] = Some (OtherError ''platform down'') \<and>
   fst (applyChanges exampleDeps (platformAnswering [Some (OtherError ''platform down'')])
      [webUpdate, fluxUpdate, apiUpdate] Map.empty) = Some (OtherError ''platform down'') \<and>
   results (snd (applyChanges exampleDeps (platformAnswering [Some (OtherError ''platform down'')])
      [webUpdate, fluxUpdate, apiUpdate] Map.empty)) ''ns/fluxsvc'' =
     Some \<lparr>Status = ReleaseStatusUnknown, Error = ''platform down'', PerContainer = []\<rparr>"
proof -
  have h: "ordinaryApplyResult exampleDeps (platformAnswering [Some (OtherError ''platform down'')])
      [webUpdate, fluxUpdate, apiUpdate] = Some (OtherError ''platform down'')"
    by (simp add: example_defs)
  show ?thesis
    using h coverall_error_marks_whole_batch_unknown [OF h, of Map.empty]
    by (simp add: fluxUpdate_def)
qed

section \<open>Per-service apply error\<close>

text \<open>
  C2. When the platform answers the apply of the ordinary partition with an ApplyError,
  every service the error names has the ledger entry Failed with the error's cause for
  that service as its message, and every ordinary record the error does not name keeps
  the entry the first loop gave it: Success, with the \<open>Error\<close> and \<open>PerContainer\<close> the
  ledger held before the call.
\<close>

theorem apply_error_marks_named_failed:
  assumes "ordinaryApplyResult D i updates = Some (ApplyError err)"
  shows "(\<forall>k cause. err k = Some cause \<longrightarrow>
            results (snd (applyChanges D i updates res)) k =
              Some \<lparr>Status = ReleaseStatusFailed, Error = cause, PerContainer = []\<rparr>) \<and>
         (\<forall>u \<in> set updates. \<not> isSelf D (ServiceID u) \<longrightarrow> err (ServiceID u) = None \<longrightarrow>
            results (snd (applyChanges D i updates res)) (ServiceID u) =
              Some \<lparr>Status = ReleaseStatusSuccess,
                    Error = Error (index res (ServiceID u)),
                    PerContainer = PerContainer (index res (ServiceID u))\<rparr>)"
  using assms by (simp add: applyChanges_results markFailed_def primed_def)

theorem apply_error_marks_named_failed_witness:
  "ordinaryApplyResult exampleDeps
      (platformAnswering [Some (ApplyError [''ns/web'' \<mapsto> ''image pull failed''])])
      [webUpdate, fluxUpdate, apiUpdate] =
     Some (ApplyError [''ns/web'' \<mapsto> ''image pull failed'']) \<and>
   results (snd (applyChanges exampleDeps
      (platformAnswering [Some (ApplyError [''ns/web'' \<mapsto> ''image pull failed''])])
      [webUpdate, fluxUpdate, apiUpdate] Map.empty)) ''ns/web'' =
     Some \<lparr>Status = ReleaseStatusFailed, Error = ''image pull failed'', PerContainer = []\<rparr> \<and>
   results (snd (applyChanges exampleDeps
      (platformAnswering [Some (ApplyError [''ns/web'' \<mapsto> ''image pull failed''])])
      [webUpdate, fluxUpdate, apiUpdate] Map.empty)) ''ns/api'' =
     Some \<lparr>Status = ReleaseStatusSuccess, Error = [], PerContainer = []\<rparr>"
proof -
  let ?err = "[''ns/web'' \<mapsto> ''image pull failed'']"
  let ?i = "platformAnswering [Some (ApplyError ?err)]"
  have h: "ordinaryApplyResult exampleDeps ?i [webUpdate, fluxUpdate, apiUpdate] =
      Some (ApplyError ?err)"
    by (simp add: example_defs)
  have a: "apiUpdate \<in> set [webUpdate, fluxUpdate, apiUpdate]" by simp
  have b: "\<not> isSelf exampleDeps (ServiceID apiUpdate)" by (simp add: example_defs)
  have c: "?err (ServiceID apiUpdate) = None" by (simp add: example_defs)
  have d: "?err ''ns/web'' = Some ''image pull failed''" by simp
  note t = apply_error_marks_named_failed [OF h, of Map.empty]
  from t d have w: "results (snd (applyChanges exampleDeps ?i
      [webUpdate, fluxUpdate, apiUpdate] Map.empty)) ''ns/web'' =
     Some \<lparr>Status = ReleaseStatusFailed, Error = ''image pull failed'', PerContainer = []\<rparr>"
    by blast
  from t a b c have "results (snd (applyChanges exampleDeps ?i
      [webUpdate, fluxUpdate, apiUpdate] Map.empty)) (ServiceID apiUpdate) =
     Some \<lparr>Status = ReleaseStatusSuccess, Error = Error (index Map.empty (ServiceID apiUpdate)),
           PerContainer = PerContainer (index Map.empty (ServiceID apiUpdate))\<rparr>"
    by blast
  then have v: "results (snd (applyChanges exampleDeps ?i
      [webUpdate, fluxUpdate, apiUpdate] Map.empty)) ''ns/api'' =
     Some \<lparr>Status = ReleaseStatusSuccess, Error = [], PerContainer = []\<rparr>"
    by (simp add: apiUpdate_def index_def zeroServiceResult_def)
  from h w v show ?thesis by simp
qed

text \<open>
  C3, as stated, fails: with an ApplyError for ns/web, applyChanges does not return nil.
  The last statement of the function returns \<open>transactionErr\<close>, which is the ApplyError.
\<close>

theorem apply_error_returned_counterexample:
  "ordinaryApplyResult exampleDeps
      (platformAnswering [Some (ApplyError [''ns/web'' \<mapsto> ''image pull failed''])])
      [webUpdate] = Some (ApplyError [''ns/web'' \<mapsto> ''image pull failed'']) \<and>
   fst (applyChanges exampleDeps
      (platformAnswering [Some (ApplyError [''ns/web'' \<mapsto> ''image pull failed''])])
      [webUpdate] Map.empty) \<noteq> None"
  by (simp add: applyChanges_fst) (simp add: example_defs)

text \<open>
  C3, amended. When the platform answers the apply of the ordinary partition with an
  ApplyError, applyChanges turns it into ledger state (Failed with the cause at every
  service the error names; everywhere else the ledger as primed: Success with the
  earlier \<open>Error\<close> and \<open>PerContainer\<close> for the services of the batch, and the entry as
  it was for the others), goes on to the result events of the ordinary partition and
  to the self apply, and returns that same ApplyError to its caller. In every case the
  function returns what the ordinary apply answered, so it returns no error exactly
  when the ordinary apply answered none.
\<close>

theorem apply_error_returned_to_caller:
  "(\<forall>err. ordinaryApplyResult D i updates = Some (ApplyError err) \<longrightarrow>
      fst (applyChanges D i updates res) = Some (ApplyError err) \<and>
      (\<forall>k. results (snd (applyChanges D i updates res)) k =
         (case err k of
            Some cause \<Rightarrow>
              Some \<lparr>Status = ReleaseStatusFailed, Error = cause, PerContainer = []\<rparr>
          | None \<Rightarrow>
              if k \<in> ServiceID ` set updates
              then Some \<lparr>Status = ReleaseStatusSuccess, Error = Error (index res k),
                         PerContainer = PerContainer (index res k)\<rparr>
              else res k)) \<and>
      events (inst (snd (applyChanges D i updates res))) =
        events i @ map (startingEvent D) updates @
        [EvPlatformApply (ordinaryPartition D updates)] @
        map (resultEvent D (results (snd (applyChanges D i updates res))))
          (ordinaryPartition D updates) @
        (if selfPartition D updates \<noteq> []
         then [EvPlatformApply (selfPartition D updates)] else [])) \<and>
   fst (applyChanges D i updates res) = ordinaryApplyResult D i updates \<and>
   (fst (applyChanges D i updates res) = None \<longleftrightarrow> ordinaryApplyResult D i updates = None)"
proof -
  have ret: "fst (applyChanges D i updates res) = ordinaryApplyResult D i updates"
    by (rule applyChanges_fst)
  have main: "fst (applyChanges D i updates res) = Some (ApplyError err) \<and>
      (\<forall>k. results (snd (applyChanges D i updates res)) k =
         (case err k of
            Some cause \<Rightarrow>
              Some \<lparr>Status = ReleaseStatusFailed, Error = cause, PerContainer = []\<rparr>
          | None \<Rightarrow>
              if k \<in> ServiceID ` set updates
              then Some \<lparr>Status = ReleaseStatusSuccess, Error = Error (index res k),
                         PerContainer = PerContainer (index res k)\<rparr>
              else res k)) \<and>
      events (inst (snd (applyChanges D i updates res))) =
        events i @ map (startingEvent D) updates @
        [EvPlatformApply (ordinaryPartition D updates)] @
        map (resultEvent D (results (snd (applyChanges D i updates res))))
          (ordinaryPartition D updates) @
        (if selfPartition D updates \<noteq> []
         then [EvPlatformApply (selfPartition D updates)] else [])"
    if r: "ordinaryApplyResult D i updates = Some (ApplyError err)" for err
  proof -
    have nc: "\<not> coverall (ordinaryApplyResult D i updates)"
      by (simp add: r coverall_def)
    have a: "fst (applyChanges D i updates res) = Some (ApplyError err)"
      by (simp add: ret r)
    have b: "\<forall>k. results (snd (applyChanges D i updates res)) k =
         (case err k of
            Some cause \<Rightarrow>
              Some \<lparr>Status = ReleaseStatusFailed, Error = cause, PerContainer = []\<rparr>
          | None \<Rightarrow>
              if k \<in> ServiceID ` set updates
              then Some \<lparr>Status = ReleaseStatusSuccess, Error = Error (index res k),
                         PerContainer = PerContainer (index res k)\<rparr>
              else res k)"
      by (simp add: applyChanges_results_pointwise r primed_def split: option.split)
    from a b applyChanges_result_trace [OF nc, of res] show ?thesis by (intro conjI)
  qed
  from main ret show ?thesis by simp
qed

theorem apply_error_returned_to_caller_witness:
  "ordinaryApplyResult exampleDeps
      (platformAnswering [Some (ApplyError [''ns/api'' \<mapsto> ''quota''])])
      [webUpdate, apiUpdate] = Some (ApplyError [''ns/api'' \<mapsto> ''quota'']) \<and>
   fst (applyChanges exampleDeps
      (platformAnswering [Some (ApplyError [''ns/api'' \<mapsto> ''quota''])])
      [webUpdate, apiUpdate] Map.empty) = Some (ApplyError [''ns/api'' \<mapsto> ''quota'']) \<and>
   results (snd (applyChanges exampleDeps
      (platformAnswering [Some (ApplyError [''ns/api'' \<mapsto> ''quota''])])
      [webUpdate, apiUpdate] Map.empty)) ''ns/api'' =
     Some \<lparr>Status = ReleaseStatusFailed, Error = ''quota'', PerContainer = []\<rparr> \<and>
   results (snd (applyChanges exampleDeps
      (platformAnswering [Some (ApplyError [''ns/api'' \<mapsto> ''quota''])])
      [webUpdate, apiUpdate] Map.empty)) ''ns/web'' =
     Some \<lparr>Status = ReleaseStatusSuccess, Error = [], PerContainer = []\<rparr> \<and>
   fst (applyChanges exampleDeps (platformAnswering [None]) [webUpdate, apiUpdate] Map.empty) =
     None"
proof -
  let ?err = "[''ns/api'' \<mapsto> ''quota'']"
  let ?i = "platformAnswering [Some (ApplyError ?err)]"
  have h: "ordinaryApplyResult exampleDeps ?i [webUpdate, apiUpdate] = Some (ApplyError ?err)"
    by (simp add: example_defs)
  have n: "ordinaryApplyResult exampleDeps (platformAnswering [None]) [webUpdate, apiUpdate] =
      None"
    by (simp add: example_defs)
  note t = apply_error_returned_to_caller
    [of exampleDeps ?i "[webUpdate, apiUpdate]" Map.empty,
     THEN conjunct1, rule_format, OF h]
  note a = t [THEN conjunct1]
  note b = t [THEN conjunct2, THEN conjunct1, rule_format]
  have b1: "results (snd (applyChanges exampleDeps ?i [webUpdate, apiUpdate] Map.empty))
      ''ns/api'' = Some \<lparr>Status = ReleaseStatusFailed, Error = ''quota'', PerContainer = []\<rparr>"
    using b [of "''ns/api''"] by simp
  have b2: "results (snd (applyChanges exampleDeps ?i [webUpdate, apiUpdate] Map.empty))
      ''ns/web'' = Some \<lparr>Status = ReleaseStatusSuccess, Error = [], PerContainer = []\<rparr>"
    using b [of "''ns/web''"]
    by (simp add: webUpdate_def apiUpdate_def index_def zeroServiceResult_def)
  have c: "fst (applyChanges exampleDeps (platformAnswering [None]) [webUpdate, apiUpdate]
      Map.empty) = None"
    using apply_error_returned_to_caller
      [of exampleDeps "platformAnswering [None]" "[webUpdate, apiUpdate]" Map.empty,
       THEN conjunct2, THEN conjunct2] n
    by simp
  from h a b1 b2 c show ?thesis by (intro conjI)
qed

section \<open>Partition\<close>

text \<open>
  C4. The definitions collected for the synchronous apply are those of the updates
  whose service name is neither of the two reserved names, the definitions collected
  for the asynchronous apply are those of the updates whose service name is one of
  them, both in input order (a \<open>filter\<close> of the batch), and the two lists together are
  as long as the batch.
\<close>

theorem partition_by_reserved_names:
  "defs (snd (applyChanges D i updates res)) =
     map (\<lambda>u. \<lparr>DefServiceID = ServiceID u, NewDefinition = ManifestBytes u, Async = False\<rparr>)
       (filter (\<lambda>u. \<not> isSelf D (ServiceID u)) updates) \<and>
   asyncDefs (snd (applyChanges D i updates res)) =
     map (\<lambda>u. \<lparr>DefServiceID = ServiceID u, NewDefinition = ManifestBytes u, Async = True\<rparr>)
       (filter (\<lambda>u. isSelf D (ServiceID u)) updates) \<and>
   length (defs (snd (applyChanges D i updates res))) +
     length (asyncDefs (snd (applyChanges D i updates res))) = length updates \<and>
   (\<forall>k. isSelf D k \<longleftrightarrow>
      snd (Components D k) = FluxServiceName D \<or> snd (Components D k) = FluxDaemonName D)"
proof -
  have "length (filter (\<lambda>u. \<not> isSelf D (ServiceID u)) updates) +
        length (filter (\<lambda>u. isSelf D (ServiceID u)) updates) = length updates"
    using sum_length_filter_compl [of "\<lambda>u. isSelf D (ServiceID u)" updates] by simp
  then show ?thesis
    by (simp add: applyChanges_defs applyChanges_asyncDefs ordinaryPartition_def
          selfPartition_def isSelf_snd)
qed

theorem partition_by_reserved_names_witness:
  "defs (snd (applyChanges exampleDeps (platformAnswering [])
      [fluxUpdate, webUpdate, apiUpdate] Map.empty)) =
     [\<lparr>DefServiceID = ''ns/web'', NewDefinition = [1, 2], Async = False\<rparr>,
      \<lparr>DefServiceID = ''ns/api'', NewDefinition = [3], Async = False\<rparr>] \<and>
   asyncDefs (snd (applyChanges exampleDeps (platformAnswering [])
      [fluxUpdate, webUpdate, apiUpdate] Map.empty)) =
     [\<lparr>DefServiceID = ''ns/fluxsvc'', NewDefinition = [], Async = True\<rparr>]"
  using partition_by_reserved_names
    [of exampleDeps "platformAnswering []" "[fluxUpdate, webUpdate, apiUpdate]" Map.empty]
  by (simp add: example_defs)

section \<open>Priming\<close>

text \<open>
  C5. applyChanges is its first loop followed by the rest of the function, whose first
  action is the ordinary apply. In the frame the first loop leaves, every service of
  the batch (either partition) has a ledger entry with status Success whose \<open>Error\<close>
  and \<open>PerContainer\<close> are those the ledger held for the service before the call (those
  of the zero value when it held none), and the instance has seen the starting events
  only, none of which is a call of the platform; the next event of applyChanges is the
  apply of the ordinary partition. When that apply answers no error, or an ApplyError
  that does not name the service, the entry is still so when applyChanges returns.
\<close>

theorem priming_keeps_error_and_changes:
  "applyChanges D i updates res =
     applyAndReport D updates
       (fold (collect D) updates \<lparr>defs = [], asyncDefs = [], results = res, inst = i\<rparr>) \<and>
   (\<forall>u \<in> set updates.
      results (fold (collect D) updates
                 \<lparr>defs = [], asyncDefs = [], results = res, inst = i\<rparr>) (ServiceID u) =
        Some \<lparr>Status = ReleaseStatusSuccess,
              Error = Error (index res (ServiceID u)),
              PerContainer = PerContainer (index res (ServiceID u))\<rparr>) \<and>
   inst (fold (collect D) updates \<lparr>defs = [], asyncDefs = [], results = res, inst = i\<rparr>) =
     i\<lparr>events := events i @ map (startingEvent D) updates\<rparr> \<and>
   filter isPlatformApply (map (startingEvent D) updates) = [] \<and>
   (\<forall>f. take (Suc (length (events (inst f))))
          (events (inst (snd (applyAndReport D updates f)))) =
        events (inst f) @ [EvPlatformApply (defs f)]) \<and>
   take (length (events i) + length updates + 1)
     (events (inst (snd (applyChanges D i updates res)))) =
     events i @ map (startingEvent D) updates @
     [EvPlatformApply (ordinaryPartition D updates)] \<and>
   (\<forall>u \<in> set updates.
      ordinaryApplyResult D i updates = None \<or>
      (\<exists>err. ordinaryApplyResult D i updates = Some (ApplyError err) \<and>
             err (ServiceID u) = None) \<longrightarrow>
      results (snd (applyChanges D i updates res)) (ServiceID u) =
        Some \<lparr>Status = ReleaseStatusSuccess,
              Error = Error (index res (ServiceID u)),
              PerContainer = PerContainer (index res (ServiceID u))\<rparr>)"
proof -
  let ?P = "fold (collect D) updates \<lparr>defs = [], asyncDefs = [], results = res, inst = i\<rparr>"
  have a: "applyChanges D i updates res = applyAndReport D updates ?P"
    by (rule applyChanges_phases)
  have b: "\<forall>u \<in> set updates. results ?P (ServiceID u) =
      Some \<lparr>Status = ReleaseStatusSuccess, Error = Error (index res (ServiceID u)),
            PerContainer = PerContainer (index res (ServiceID u))\<rparr>"
    by (simp add: fold_collect_results primed_def)
  have c: "inst ?P = i\<lparr>events := events i @ map (startingEvent D) updates\<rparr>"
    by (simp add: fold_collect_inst)
  have d: "filter isPlatformApply (map (startingEvent D) updates) = []"
    by (rule no_apply_in_starting)
  have e: "\<forall>f. take (Suc (length (events (inst f))))
          (events (inst (snd (applyAndReport D updates f)))) =
        events (inst f) @ [EvPlatformApply (defs f)]"
    by (simp add: applyAndReport_first_event)
  have g: "take (length (events i) + length updates + 1)
     (events (inst (snd (applyChanges D i updates res)))) =
     events i @ map (startingEvent D) updates @
     [EvPlatformApply (ordinaryPartition D updates)]"
    by (simp add: applyChanges_trace [of D i updates res])
  have h: "\<forall>u \<in> set updates.
      ordinaryApplyResult D i updates = None \<or>
      (\<exists>err. ordinaryApplyResult D i updates = Some (ApplyError err) \<and>
             err (ServiceID u) = None) \<longrightarrow>
      results (snd (applyChanges D i updates res)) (ServiceID u) =
        Some \<lparr>Status = ReleaseStatusSuccess,
              Error = Error (index res (ServiceID u)),
              PerContainer = PerContainer (index res (ServiceID u))\<rparr>"
    by (auto simp add: applyChanges_results_pointwise primed_def)
  from a b c d e g h show ?thesis by (intro conjI)
qed

theorem priming_keeps_error_and_changes_witness:
  "results (fold (collect exampleDeps) [webUpdate, fluxUpdate]
      \<lparr>defs = [], asyncDefs = [],
       results = [''ns/web'' \<mapsto> \<lparr>Status = ReleaseStatusUnknown, Error = ''stale'',
                                  PerContainer = [appChange]\<rparr>],
       inst = platformAnswering []\<rparr>) ''ns/web'' =
     Some \<lparr>Status = ReleaseStatusSuccess, Error = ''stale'', PerContainer = [appChange]\<rparr> \<and>
   results (snd (applyChanges exampleDeps (platformAnswering []) [webUpdate, fluxUpdate]
      [''ns/web'' \<mapsto> \<lparr>Status = ReleaseStatusUnknown, Error = ''stale'',
                         PerContainer = [appChange]\<rparr>])) ''ns/web'' =
     Some \<lparr>Status = ReleaseStatusSuccess, Error = ''stale'', PerContainer = [appChange]\<rparr> \<and>
   results (snd (applyChanges exampleDeps (platformAnswering []) [webUpdate, fluxUpdate]
      [''ns/web'' \<mapsto> \<lparr>Status = ReleaseStatusUnknown, Error = ''stale'',
                         PerContainer = [appChange]\<rparr>])) ''ns/fluxsvc'' =
     Some \<lparr>Status = ReleaseStatusSuccess, Error = [], PerContainer = []\<rparr>"
proof -
  let ?res = "[''ns/web'' \<mapsto> \<lparr>Status = ReleaseStatusUnknown, Error = ''stale'',
                                 PerContainer = [appChange]\<rparr>]"
  let ?us = "[webUpdate, fluxUpdate]"
  note t = priming_keeps_error_and_changes [of exampleDeps "platformAnswering []" ?us ?res]
  have n: "ordinaryApplyResult exampleDeps (platformAnswering []) ?us = None"
    by (simp add: example_defs)
  note p = t [THEN conjunct2, THEN conjunct1, rule_format]
  note q = t [THEN conjunct2, THEN conjunct2, THEN conjunct2, THEN conjunct2, THEN conjunct2,
              THEN conjunct2, rule_format, OF _ disjI1, OF _ n]
  have a: "results (fold (collect exampleDeps) ?us
      \<lparr>defs = [], asyncDefs = [], results = ?res, inst = platformAnswering []\<rparr>) ''ns/web'' =
     Some \<lparr>Status = ReleaseStatusSuccess, Error = ''stale'', PerContainer = [appChange]\<rparr>"
    using p [of webUpdate] by (simp add: webUpdate_def index_def)
  have b: "results (snd (applyChanges exampleDeps (platformAnswering []) ?us ?res)) ''ns/web'' =
     Some \<lparr>Status = ReleaseStatusSuccess, Error = ''stale'', PerContainer = [appChange]\<rparr>"
    using q [of webUpdate] by (simp add: webUpdate_def index_def)
  have c: "results (snd (applyChanges exampleDeps (platformAnswering []) ?us ?res))
      ''ns/fluxsvc'' = Some \<lparr>Status = ReleaseStatusSuccess, Error = [], PerContainer = []\<rparr>"
    using q [of fluxUpdate]
    by (simp add: webUpdate_def fluxUpdate_def index_def zeroServiceResult_def)
  from a b c show ?thesis by (intro conjI)
qed

section \<open>Services outside the batch\<close>

text \<open>
  C6, as stated, fails: the batch holds ns/web only, the ApplyError names ns/other, and
  the ledger entry of ns/other, absent before the call, is Failed after it. The loop
  over the ApplyError writes at every key of the error.
\<close>

theorem apply_error_writes_outside_batch_counterexample:
  "''ns/other'' \<notin> ServiceID ` set [webUpdate] \<and>
   (Map.empty :: ReleaseResult) ''ns/other'' = None \<and>
   results (snd (applyChanges exampleDeps
      (platformAnswering [Some (ApplyError [''ns/other'' \<mapsto> ''not found''])])
      [webUpdate] Map.empty)) ''ns/other'' =
     Some \<lparr>Status = ReleaseStatusFailed, Error = ''not found'', PerContainer = []\<rparr>"
  by (simp add: applyChanges_results example_defs markFailed_def)

text \<open>
  C6, amended. The ledger entry of a service that is not in the batch is left as it
  was (absent if it was absent) unless the platform answers with an ApplyError that
  names the service; and for every service an ApplyError names, in the batch or not,
  the ledger entry after the call is Failed with the cause the error gives.
\<close>

theorem ledger_outside_batch_untouched:
  "(k \<notin> ServiceID ` set updates \<and>
    (\<forall>err. ordinaryApplyResult D i updates = Some (ApplyError err) \<longrightarrow> err k = None) \<longrightarrow>
      results (snd (applyChanges D i updates res)) k = res k) \<and>
   (\<forall>err cause. ordinaryApplyResult D i updates = Some (ApplyError err) \<and>
        err k = Some cause \<longrightarrow>
      results (snd (applyChanges D i updates res)) k =
        Some \<lparr>Status = ReleaseStatusFailed, Error = cause, PerContainer = []\<rparr>)"
  by (auto simp add: applyChanges_results_pointwise primed_def
        split: option.split GoError.split)

theorem ledger_outside_batch_untouched_witness:
  "''ns/db'' \<notin> ServiceID ` set [webUpdate, fluxUpdate] \<and>
   results (snd (applyChanges exampleDeps
      (platformAnswering [Some (ApplyError [''ns/gone'' \<mapsto> ''not found''])])
      [webUpdate, fluxUpdate]
      [''ns/db'' \<mapsto> \<lparr>Status = ReleaseStatusFailed, Error = ''old'', PerContainer = []\<rparr>]))
     ''ns/db'' =
     Some \<lparr>Status = ReleaseStatusFailed, Error = ''old'', PerContainer = []\<rparr> \<and>
   ''ns/gone'' \<notin> ServiceID ` set [webUpdate, fluxUpdate] \<and>
   results (snd (applyChanges exampleDeps
      (platformAnswering [Some (ApplyError [''ns/gone'' \<mapsto> ''not found''])])
      [webUpdate, fluxUpdate]
      [''ns/db'' \<mapsto> \<lparr>Status = ReleaseStatusFailed, Error = ''old'', PerContainer = []\<rparr>]))
     ''ns/gone'' =
     Some \<lparr>Status = ReleaseStatusFailed, Error = ''not found'', PerContainer = []\<rparr>"
proof -
  let ?err = "[''ns/gone'' \<mapsto> ''not found'']"
  let ?i = "platformAnswering [Some (ApplyError ?err)]"
  let ?res = "[''ns/db'' \<mapsto>
      \<lparr>Status = ReleaseStatusFailed, Error = ''old'', PerContainer = []\<rparr>]"
  have r: "ordinaryApplyResult exampleDeps ?i [webUpdate, fluxUpdate] = Some (ApplyError ?err)"
    by (simp add: example_defs)
  have a: "''ns/db'' \<notin> ServiceID ` set [webUpdate, fluxUpdate]"
    by (simp add: example_defs)
  have a': "''ns/gone'' \<notin> ServiceID ` set [webUpdate, fluxUpdate]"
    by (simp add: example_defs)
  have b: "\<forall>err. ordinaryApplyResult exampleDeps ?i [webUpdate, fluxUpdate] =
      Some (ApplyError err) \<longrightarrow> err ''ns/db'' = None"
    by (auto simp add: r)
  have c: "?err ''ns/gone'' = Some ''not found''" by simp
  have u: "results (snd (applyChanges exampleDeps ?i [webUpdate, fluxUpdate] ?res)) ''ns/db'' =
      ?res ''ns/db''"
    using ledger_outside_batch_untouched
      [of "''ns/db''" "[webUpdate, fluxUpdate]" exampleDeps ?i ?res, THEN conjunct1] a b
    by blast
  have w: "results (snd (applyChanges exampleDeps ?i [webUpdate, fluxUpdate] ?res))
      ''ns/gone'' = Some \<lparr>Status = ReleaseStatusFailed, Error = ''not found'', PerContainer = []\<rparr>"
    using ledger_outside_batch_untouched
      [of "''ns/gone''" "[webUpdate, fluxUpdate]" exampleDeps ?i ?res, THEN conjunct2,
       rule_format, of ?err "''not found''"] r c
    by blast
  from u have u': "results (snd (applyChanges exampleDeps ?i [webUpdate, fluxUpdate] ?res))
      ''ns/db'' = Some \<lparr>Status = ReleaseStatusFailed, Error = ''old'', PerContainer = []\<rparr>"
    by simp
  from a u' a' w show ?thesis by (intro conjI)
qed

section \<open>Self apply\<close>

text \<open>
  C7, as stated, fails in its last clause: when the ApplyError of the ordinary apply
  names the self record ns/fluxsvc, there is no coverall error, the record's entry,
  Success after the first loop, is Failed when the function returns, and the self
  partition is submitted all the same.
\<close>

theorem self_record_revisited_counterexample:
  "\<not> coverall (ordinaryApplyResult exampleDeps
        (platformAnswering [Some (ApplyError [''ns/fluxsvc'' \<mapsto> ''self failed''])])
        [webUpdate, fluxUpdate]) \<and>
   isSelf exampleDeps (ServiceID fluxUpdate) \<and>
   results (fold (collect exampleDeps) [webUpdate, fluxUpdate]
      \<lparr>defs = [], asyncDefs = [], results = Map.empty,
       inst = platformAnswering [Some (ApplyError [''ns/fluxsvc'' \<mapsto> ''self failed''])]\<rparr>)
     ''ns/fluxsvc'' =
     Some \<lparr>Status = ReleaseStatusSuccess, Error = [], PerContainer = []\<rparr> \<and>
   results (snd (applyChanges exampleDeps
        (platformAnswering [Some (ApplyError [''ns/fluxsvc'' \<mapsto> ''self failed''])])
        [webUpdate, fluxUpdate] Map.empty)) ''ns/fluxsvc'' =
     Some \<lparr>Status = ReleaseStatusFailed, Error = ''self failed'', PerContainer = []\<rparr> \<and>
   filter isPlatformApply (events (inst (snd (applyChanges exampleDeps
        (platformAnswering [Some (ApplyError [''ns/fluxsvc'' \<mapsto> ''self failed''])])
        [webUpdate, fluxUpdate] Map.empty)))) =
     [EvPlatformApply [\<lparr>DefServiceID = ''ns/web'', NewDefinition = [1, 2], Async = False\<rparr>],
      EvPlatformApply [\<lparr>DefServiceID = ''ns/fluxsvc'', NewDefinition = [], Async = True\<rparr>]]"
proof -
  let ?i = "platformAnswering [Some (ApplyError [''ns/fluxsvc'' \<mapsto> ''self failed''])]"
  have r: "ordinaryApplyResult exampleDeps ?i [webUpdate, fluxUpdate] =
      Some (ApplyError [''ns/fluxsvc'' \<mapsto> ''self failed''])"
    by (simp add: example_defs)
  have a: "\<not> coverall (ordinaryApplyResult exampleDeps ?i [webUpdate, fluxUpdate])"
    by (simp add: r coverall_def)
  have b: "isSelf exampleDeps (ServiceID fluxUpdate)"
    by (simp add: example_defs)
  have c: "results (fold (collect exampleDeps) [webUpdate, fluxUpdate]
      \<lparr>defs = [], asyncDefs = [], results = Map.empty, inst = ?i\<rparr>) ''ns/fluxsvc'' =
     Some \<lparr>Status = ReleaseStatusSuccess, Error = [], PerContainer = []\<rparr>"
    unfolding fold_collect_results
    by (simp add: primed_def webUpdate_def fluxUpdate_def index_def zeroServiceResult_def)
  have d: "results (snd (applyChanges exampleDeps ?i [webUpdate, fluxUpdate] Map.empty))
      ''ns/fluxsvc'' =
     Some \<lparr>Status = ReleaseStatusFailed, Error = ''self failed'', PerContainer = []\<rparr>"
    by (simp add: applyChanges_results_pointwise r)
  have e: "filter isPlatformApply (events (inst (snd (applyChanges exampleDeps ?i
        [webUpdate, fluxUpdate] Map.empty)))) =
     [EvPlatformApply [\<lparr>DefServiceID = ''ns/web'', NewDefinition = [1, 2], Async = False\<rparr>],
      EvPlatformApply [\<lparr>DefServiceID = ''ns/fluxsvc'', NewDefinition = [], Async = True\<rparr>]]"
    by (simp add: applyChanges_trace [of exampleDeps ?i "[webUpdate, fluxUpdate]" Map.empty]
          a startingEvent_no_apply reportEvent_no_apply)
       (simp add: example_defs)
  from a b c d e show ?thesis by (intro conjI)
qed

text \<open>
  C7, amended. The instance sees, after the events it had seen: the starting events,
  the apply of the ordinary partition and, unless that apply answered with a coverall
  error, one report event for each ordinary definition followed by the apply of the
  self partition if that partition is not empty. So the calls of the platform are the
  ordinary apply and then, if and only if the self partition is not empty and there was
  no coverall error, one apply of the self partition, which is the last thing the
  function does. The part of the function from the reporting loop on returns the error
  it was given and leaves the ledger as it was. The error returned, the ledger and the
  events do not depend on what the platform answers to the self apply: they are the
  same for any platform that gives the same answer to the ordinary apply. The entry of
  a self record is the Success entry of the first loop when the ordinary apply answers
  no error or an ApplyError that does not name the record, and Failed with the cause
  when the ApplyError names it.
\<close>

theorem self_apply_once_after_reporting:
  "events (inst (snd (applyChanges D i updates res))) =
     events i @ map (startingEvent D) updates @
     [EvPlatformApply (ordinaryPartition D updates)] @
     (if coverall (ordinaryApplyResult D i updates) then []
      else map (reportEvent D (results (snd (applyChanges D i updates res))))
             (ordinaryPartition D updates) @
           (if selfPartition D updates \<noteq> []
            then [EvPlatformApply (selfPartition D updates)] else [])) \<and>
   filter isPlatformApply (drop (length (events i))
       (events (inst (snd (applyChanges D i updates res))))) =
     EvPlatformApply (ordinaryPartition D updates) #
     (if selfPartition D updates \<noteq> [] \<and> \<not> coverall (ordinaryApplyResult D i updates)
      then [EvPlatformApply (selfPartition D updates)] else []) \<and>
   (\<forall>e g. fst (reportAndRelease D e g) = e \<and>
          results (snd (reportAndRelease D e g)) = results g) \<and>
   (\<forall>D'. FluxServiceName D' = FluxServiceName D \<and> FluxDaemonName D' = FluxDaemonName D \<and>
         Components D' = Components D \<and> ImageString D' = ImageString D \<and>
         fst (Apply D' (ordinaryPartition D updates) (platform i)) =
           fst (Apply D (ordinaryPartition D updates) (platform i)) \<longrightarrow>
         fst (applyChanges D' i updates res) = fst (applyChanges D i updates res) \<and>
         results (snd (applyChanges D' i updates res)) =
           results (snd (applyChanges D i updates res)) \<and>
         events (inst (snd (applyChanges D' i updates res))) =
           events (inst (snd (applyChanges D i updates res)))) \<and>
   (\<forall>u \<in> set updates. isSelf D (ServiceID u) \<longrightarrow>
      (ordinaryApplyResult D i updates = None \<or>
       (\<exists>err. ordinaryApplyResult D i updates = Some (ApplyError err) \<and>
              err (ServiceID u) = None) \<longrightarrow>
       results (snd (applyChanges D i updates res)) (ServiceID u) =
         Some \<lparr>Status = ReleaseStatusSuccess,
               Error = Error (index res (ServiceID u)),
               PerContainer = PerContainer (index res (ServiceID u))\<rparr>) \<and>
      (\<forall>err cause. ordinaryApplyResult D i updates = Some (ApplyError err) \<and>
           err (ServiceID u) = Some cause \<longrightarrow>
         results (snd (applyChanges D i updates res)) (ServiceID u) =
           Some \<lparr>Status = ReleaseStatusFailed, Error = cause, PerContainer = []\<rparr>))"
proof -
  let ?f = "snd (applyChanges D i updates res)"
  let ?r = "ordinaryApplyResult D i updates"
  have ev: "events (inst ?f) =
     events i @ map (startingEvent D) updates @
     [EvPlatformApply (ordinaryPartition D updates)] @
     (if coverall ?r then []
      else map (reportEvent D (results ?f)) (ordinaryPartition D updates) @
           (if selfPartition D updates \<noteq> []
            then [EvPlatformApply (selfPartition D updates)] else []))"
    by (rule applyChanges_trace)
  have calls: "filter isPlatformApply (drop (length (events i)) (events (inst ?f))) =
     EvPlatformApply (ordinaryPartition D updates) #
     (if selfPartition D updates \<noteq> [] \<and> \<not> coverall ?r
      then [EvPlatformApply (selfPartition D updates)] else [])"
    by (subst ev) (simp add: no_apply_in_starting no_apply_in_report)
  have phase: "\<forall>e g. fst (reportAndRelease D e g) = e \<and>
      results (snd (reportAndRelease D e g)) = results g"
    by (simp add: reportAndRelease_fst reportAndRelease_results)
  have indep: "fst (applyChanges D' i updates res) = fst (applyChanges D i updates res) \<and>
         results (snd (applyChanges D' i updates res)) = results ?f \<and>
         events (inst (snd (applyChanges D' i updates res))) = events (inst ?f)"
    if names: "FluxServiceName D' = FluxServiceName D" "FluxDaemonName D' = FluxDaemonName D"
         "Components D' = Components D"
      and img: "ImageString D' = ImageString D"
      and ans: "fst (Apply D' (ordinaryPartition D updates) (platform i)) =
           fst (Apply D (ordinaryPartition D updates) (platform i))"
    for D'
  proof -
    have s: "isSelf D' = isSelf D" using names by (rule isSelf_cong)
    have o: "ordinaryPartition D' updates = ordinaryPartition D updates"
      by (simp add: ordinaryPartition_def s)
    have a: "selfPartition D' updates = selfPartition D updates"
      by (simp add: selfPartition_def s)
    have st: "startingEvent D' = startingEvent D"
      by (simp add: startingEvent_def fun_eq_iff s names img)
    have re: "reportEvent D' = reportEvent D"
      by (simp add: reportEvent_def fun_eq_iff names img)
    have r: "ordinaryApplyResult D' i updates = ?r"
      by (simp add: ordinaryApplyResult_def o ans)
    have res_eq: "results (snd (applyChanges D' i updates res)) = results ?f"
      by (simp add: applyChanges_results r)
    have "events (inst (snd (applyChanges D' i updates res))) = events (inst ?f)"
      by (simp only: applyChanges_trace [of D' i updates res]
            applyChanges_trace [of D i updates res] r o a st re res_eq)
    with res_eq r show ?thesis by (simp add: applyChanges_fst)
  qed
  have indep_all: "\<forall>D'. FluxServiceName D' = FluxServiceName D \<and>
         FluxDaemonName D' = FluxDaemonName D \<and>
         Components D' = Components D \<and> ImageString D' = ImageString D \<and>
         fst (Apply D' (ordinaryPartition D updates) (platform i)) =
           fst (Apply D (ordinaryPartition D updates) (platform i)) \<longrightarrow>
         fst (applyChanges D' i updates res) = fst (applyChanges D i updates res) \<and>
         results (snd (applyChanges D' i updates res)) = results ?f \<and>
         events (inst (snd (applyChanges D' i updates res))) = events (inst ?f)"
    using indep by blast
  have selfrec: "\<forall>u \<in> set updates. isSelf D (ServiceID u) \<longrightarrow>
      (?r = None \<or> (\<exists>err. ?r = Some (ApplyError err) \<and> err (ServiceID u) = None) \<longrightarrow>
       results ?f (ServiceID u) =
         Some \<lparr>Status = ReleaseStatusSuccess,
               Error = Error (index res (ServiceID u)),
               PerContainer = PerContainer (index res (ServiceID u))\<rparr>) \<and>
      (\<forall>err cause. ?r = Some (ApplyError err) \<and> err (ServiceID u) = Some cause \<longrightarrow>
         results ?f (ServiceID u) =
           Some \<lparr>Status = ReleaseStatusFailed, Error = cause, PerContainer = []\<rparr>)"
    by (auto simp add: applyChanges_results_pointwise primed_def)
  from ev calls phase indep_all selfrec show ?thesis by (intro conjI)
qed

theorem self_apply_once_after_reporting_witness:
  "filter isPlatformApply (events (inst (snd (applyChanges exampleDeps (platformAnswering [])
      [webUpdate, fluxUpdate] Map.empty)))) =
     [EvPlatformApply [\<lparr>DefServiceID = ''ns/web'', NewDefinition = [1, 2], Async = False\<rparr>],
      EvPlatformApply [\<lparr>DefServiceID = ''ns/fluxsvc'', NewDefinition = [], Async = True\<rparr>]] \<and>
   fst (applyChanges (exampleDeps\<lparr>Apply := refusingSelf\<rparr>) (platformAnswering [])
      [webUpdate, fluxUpdate] Map.empty) =
     fst (applyChanges exampleDeps (platformAnswering []) [webUpdate, fluxUpdate] Map.empty) \<and>
   results (snd (applyChanges (exampleDeps\<lparr>Apply := refusingSelf\<rparr>) (platformAnswering [])
      [webUpdate, fluxUpdate] Map.empty)) =
     results (snd (applyChanges exampleDeps (platformAnswering [])
      [webUpdate, fluxUpdate] Map.empty))"
proof -
  note t = self_apply_once_after_reporting
    [of exampleDeps "platformAnswering []" "[webUpdate, fluxUpdate]" Map.empty]
  let ?D' = "exampleDeps\<lparr>Apply := refusingSelf\<rparr>"
  have same: "FluxServiceName ?D' = FluxServiceName exampleDeps \<and>
      FluxDaemonName ?D' = FluxDaemonName exampleDeps \<and>
      Components ?D' = Components exampleDeps \<and> ImageString ?D' = ImageString exampleDeps \<and>
      fst (Apply ?D' (ordinaryPartition exampleDeps [webUpdate, fluxUpdate])
             (platform (platformAnswering []))) =
      fst (Apply exampleDeps (ordinaryPartition exampleDeps [webUpdate, fluxUpdate])
             (platform (platformAnswering [])))"
    by (simp add: example_defs refusingSelf_def)
  have calls: "filter isPlatformApply (events (inst (snd (applyChanges exampleDeps
      (platformAnswering []) [webUpdate, fluxUpdate] Map.empty)))) =
     [EvPlatformApply [\<lparr>DefServiceID = ''ns/web'', NewDefinition = [1, 2], Async = False\<rparr>],
      EvPlatformApply [\<lparr>DefServiceID = ''ns/fluxsvc'', NewDefinition = [], Async = True\<rparr>]]"
    using t [THEN conjunct2, THEN conjunct1] by (simp add: example_defs coverall_def)
  note u = t [THEN conjunct2, THEN conjunct2, THEN conjunct2, THEN conjunct1, rule_format,
              OF same]
  have indep: "fst (applyChanges ?D' (platformAnswering [])
        [webUpdate, fluxUpdate] Map.empty) =
      fst (applyChanges exampleDeps (platformAnswering []) [webUpdate, fluxUpdate] Map.empty) \<and>
    results (snd (applyChanges ?D' (platformAnswering []) [webUpdate, fluxUpdate] Map.empty)) =
      results (snd (applyChanges exampleDeps (platformAnswering [])
        [webUpdate, fluxUpdate] Map.empty))"
    using u by (intro conjI) (elim conjE, assumption)+
  from calls indep show ?thesis by (intro conjI) (elim conjE, assumption)+
qed

section \<open>Reporting\<close>

text \<open>
  C8, as stated, fails: for a record with the container change app (repo/app:v1 to v2)
  and a ledger that is empty before the call, the result event is "Release (no image
  changes) succeeded", not the summary of the record's own changes. The summary is
  taken from \<open>PerContainer\<close> of the ledger entry, and applyChanges never copies the
  changes of the update record into the ledger.
\<close>

theorem result_summary_from_update_counterexample:
  "ordinaryApplyResult exampleDeps (platformAnswering [None]) [webUpdate] = None \<and>
   events (inst (snd (applyChanges exampleDeps (platformAnswering [None])
      [webUpdate] Map.empty))) =
     [EvLogEvent ''ns'' ''web'' ''Starting app (repo/app:v1 -> v2)'',
      EvPlatformApply [\<lparr>DefServiceID = ''ns/web'', NewDefinition = [1, 2], Async = False\<rparr>],
      EvLogEvent ''ns'' ''web'' ''Release (no image changes) succeeded''] \<and>
   ''Release '' @ summariseUpdate refString (Updates webUpdate) @ '' succeeded'' =
     ''Release app (repo/app:v1 -> v2) succeeded''"
  by (simp add: applyChanges_trace applyChanges_results coverall_def example_defs
        startingEvent_def reportEvent_def primed_def index_def zeroServiceResult_def
        summariseUpdate_def individualUpdate_def)

text \<open>
  C8, amended. When there was no coverall error, the events after the ordinary apply
  are one result event for each ordinary definition, in input order, followed by the
  self apply if any. The final ledger status of each ordinary record is Success or
  Failed, and the message of its event is "Release <summary> succeeded" or "Release
  <summary> failed: <errorMessage>" accordingly, where the summary is that of the
  container changes of the record's final ledger entry; for a Success entry these are
  the container changes the ledger held for the service before the call.
\<close>

theorem result_events_follow_final_outcome:
  assumes "\<not> coverall (ordinaryApplyResult D i updates)"
  shows "events (inst (snd (applyChanges D i updates res))) =
           events i @ map (startingEvent D) updates @
           [EvPlatformApply (ordinaryPartition D updates)] @
           map (resultEvent D (results (snd (applyChanges D i updates res))))
             (ordinaryPartition D updates) @
           (if selfPartition D updates \<noteq> []
            then [EvPlatformApply (selfPartition D updates)] else []) \<and>
         (\<forall>d \<in> set (ordinaryPartition D updates).
            Status (index (results (snd (applyChanges D i updates res))) (DefServiceID d)) =
              ReleaseStatusSuccess \<or>
            Status (index (results (snd (applyChanges D i updates res))) (DefServiceID d)) =
              ReleaseStatusFailed) \<and>
         (\<forall>d \<in> set (ordinaryPartition D updates).
            Status (index (results (snd (applyChanges D i updates res))) (DefServiceID d)) =
              ReleaseStatusSuccess \<longrightarrow>
            PerContainer (index (results (snd (applyChanges D i updates res)))
                            (DefServiceID d)) =
              PerContainer (index res (DefServiceID d)))"
proof -
  let ?f = "snd (applyChanges D i updates res)"
  have fin: "results ?f = results (reportingFrame D i updates res)"
    by (simp add: applyChanges_reporting [OF assms] reportAndRelease_results)
  have st: "\<forall>d \<in> set (ordinaryPartition D updates).
      Status (index (results ?f) (DefServiceID d)) = ReleaseStatusSuccess \<or>
      Status (index (results ?f) (DefServiceID d)) = ReleaseStatusFailed"
    using reportingFrame_status [of _ D updates i res] by (simp add: fin)
  then have "map (reportEvent D (results ?f)) (ordinaryPartition D updates) =
      map (resultEvent D (results ?f)) (ordinaryPartition D updates)"
    by (simp add: reportEvent_result)
  then have ev: "events (inst ?f) =
      events i @ map (startingEvent D) updates @
      [EvPlatformApply (ordinaryPartition D updates)] @
      map (resultEvent D (results ?f)) (ordinaryPartition D updates) @
      (if selfPartition D updates \<noteq> [] then [EvPlatformApply (selfPartition D updates)] else [])"
    using assms by (simp add: applyChanges_trace [of D i updates res])
  have pc: "\<forall>d \<in> set (ordinaryPartition D updates).
      Status (index (results ?f) (DefServiceID d)) = ReleaseStatusSuccess \<longrightarrow>
      PerContainer (index (results ?f) (DefServiceID d)) =
        PerContainer (index res (DefServiceID d))"
    by (simp add: fin reportingFrame_percontainer)
  from ev st pc show ?thesis by (intro conjI)
qed

theorem result_events_follow_final_outcome_witness:
  "\<not> coverall (ordinaryApplyResult exampleDeps
        (platformAnswering [Some (ApplyError [''ns/api'' \<mapsto> ''quota''])])
        [webUpdate, apiUpdate]) \<and>
   events (inst (snd (applyChanges exampleDeps
        (platformAnswering [Some (ApplyError [''ns/api'' \<mapsto> ''quota''])])
        [webUpdate, apiUpdate]
        [''ns/web'' \<mapsto> \<lparr>Status = ReleaseStatusOther [], Error = [],
                             PerContainer = [appChange]\<rparr>]))) =
     [EvLogEvent ''ns'' ''web'' ''Starting app (repo/app:v1 -> v2)'',
      EvLogEvent ''ns'' ''api'' ''Starting (no image changes)'',
      EvPlatformApply [\<lparr>DefServiceID = ''ns/web'', NewDefinition = [1, 2], Async = False\<rparr>,
                       \<lparr>DefServiceID = ''ns/api'', NewDefinition = [3], Async = False\<rparr>],
      EvLogEvent ''ns'' ''web'' ''Release app (repo/app:v1 -> v2) succeeded'',
      EvLogEvent ''ns'' ''api'' ''Release (no image changes) failed: quota'']"
proof -
  let ?i = "platformAnswering [Some (ApplyError [''ns/api'' \<mapsto> ''quota''])]"
  let ?res = "[''ns/web'' \<mapsto> \<lparr>Status = ReleaseStatusOther [], Error = [],
                                 PerContainer = [appChange]\<rparr>]"
  have h: "\<not> coverall (ordinaryApplyResult exampleDeps ?i [webUpdate, apiUpdate])"
    by (simp add: example_defs coverall_def)
  have r: "results (snd (applyChanges exampleDeps ?i [webUpdate, apiUpdate] ?res)) =
      markFailed [''ns/api'' \<mapsto> ''quota''] (primed ?res [webUpdate, apiUpdate])"
    by (simp add: applyChanges_results example_defs)
  from h result_events_follow_final_outcome [OF h, of ?res, THEN conjunct1]
  show ?thesis
    by (simp add: r)
       (simp add: example_defs startingEvent_def resultEvent_def resultMessage_def
          markFailed_def primed_def index_def zeroServiceResult_def
          summariseUpdate_def individualUpdate_def)
qed

section \<open>Summary of container changes\<close>

text \<open>
  C9, as stated, fails: with an image reference rendered as repository:tag, the change
  of app from repo/app:v1 to repo/app:v2 is summarised as "app (repo/app:v1 -> v2)".
  The current image is rendered in full, the target image by its tag alone.
\<close>

theorem summary_full_target_counterexample:
  "summariseUpdate refString [appChange] = ''app (repo/app:v1 -> v2)'' \<and>
   Container appChange @ '' ('' @ refString (Current appChange) @ '' -> '' @
     refString (Target appChange) @ '')'' = ''app (repo/app:v1 -> repo/app:v2)'' \<and>
   summariseUpdate refString [appChange] \<noteq>
     Container appChange @ '' ('' @ refString (Current appChange) @ '' -> '' @
       refString (Target appChange) @ '')''"
  by (simp add: summariseUpdate_def individualUpdate_def refString_def appChange_def)

text \<open>
  C9, amended. The summary of no container changes is "(no image changes)"; the summary
  of one change is "<container> (<current> -> <tag>)", with the current image rendered
  in full and the target image by its tag only; the changes of a longer list are
  rendered in the same way and joined with ", ".
\<close>

theorem summary_renders_target_tag:
  "summariseUpdate img [] = ''(no image changes)'' \<and>
   summariseUpdate img [c] =
     Container c @ '' ('' @ img (Current c) @ '' -> '' @ Tag (Target c) @ '')'' \<and>
   summariseUpdate img (c # c' # cs) =
     (Container c @ '' ('' @ img (Current c) @ '' -> '' @ Tag (Target c) @ '')'') @ '', '' @
     summariseUpdate img (c' # cs)"
  by (simp add: summariseUpdate_def individualUpdate_def)

theorem summary_renders_target_tag_witness:
  "summariseUpdate refString [appChange, appChange\<lparr>Container := ''sidecar''\<rparr>] =
     ''app (repo/app:v1 -> v2), sidecar (repo/app:v1 -> v2)''"
  using summary_renders_target_tag [of refString appChange]
    summary_renders_target_tag [of refString appChange "appChange\<lparr>Container := ''sidecar''\<rparr>" "[]"]
    summary_renders_target_tag [of refString "appChange\<lparr>Container := ''sidecar''\<rparr>"]
  by (simp add: refString_def appChange_def)

section \<open>Reachable cases of the reporting switch\<close>

text \<open>
  C10. When there was no coverall error, applyChanges is the reporting loop and the
  self apply run on a frame in whose ledger every synchronous definition has status
  Success or Failed. In every frame with that ledger (the loop does not change the
  ledger) the body of the loop logs the succeeded or the failed message: the cases
  Unknown and default of the switch are not taken, and the function emits no
  diagnostic event. With a coverall error the function returns before the loop (C1).
\<close>

theorem reporting_only_success_or_failed:
  assumes "\<not> coverall (ordinaryApplyResult D i updates)"
  shows "applyChanges D i updates res =
           reportAndRelease D (ordinaryApplyResult D i updates)
             (reportingFrame D i updates res) \<and>
         (\<forall>d \<in> set (defs (reportingFrame D i updates res)).
            Status (index (results (reportingFrame D i updates res)) (DefServiceID d)) =
              ReleaseStatusSuccess \<or>
            Status (index (results (reportingFrame D i updates res)) (DefServiceID d)) =
              ReleaseStatusFailed) \<and>
         (\<forall>d \<in> set (defs (reportingFrame D i updates res)). \<forall>f.
            results f = results (reportingFrame D i updates res) \<longrightarrow>
            report D d f =
              f\<lparr>inst := LogEvent (fst (Components D (DefServiceID d)))
                          (snd (Components D (DefServiceID d)))
                          (resultMessage (ImageString D) (index (results f) (DefServiceID d)))
                          (inst f)\<rparr>) \<and>
         (\<forall>e \<in> set (drop (length (events i))
                    (events (inst (snd (applyChanges D i updates res))))).
            \<forall>keyvals. e \<noteq> EvLog keyvals)"
proof -
  let ?g = "reportingFrame D i updates res"
  have d: "defs ?g = ordinaryPartition D updates" by (simp add: reportingFrame_def)
  have run: "applyChanges D i updates res =
      reportAndRelease D (ordinaryApplyResult D i updates) ?g"
    using assms by (rule applyChanges_reporting)
  have st: "\<forall>d \<in> set (defs ?g).
      Status (index (results ?g) (DefServiceID d)) = ReleaseStatusSuccess \<or>
      Status (index (results ?g) (DefServiceID d)) = ReleaseStatusFailed"
    using reportingFrame_status [of _ D updates i res] by (simp add: d)
  have step: "\<forall>d \<in> set (defs ?g). \<forall>f. results f = results ?g \<longrightarrow>
      report D d f =
        f\<lparr>inst := LogEvent (fst (Components D (DefServiceID d)))
                    (snd (Components D (DefServiceID d)))
                    (resultMessage (ImageString D) (index (results f) (DefServiceID d)))
                    (inst f)\<rparr>"
  proof (intro ballI allI impI)
    fix d :: ServiceDefinition and f :: "'a Frame"
    assume "d \<in> set (defs ?g)" and eq: "results f = results ?g"
    with st have "Status (index (results f) (DefServiceID d)) = ReleaseStatusSuccess \<or>
        Status (index (results f) (DefServiceID d)) = ReleaseStatusFailed"
      by simp
    from reportEvent_result [OF this, of D]
    show "report D d f =
        f\<lparr>inst := LogEvent (fst (Components D (DefServiceID d)))
                    (snd (Components D (DefServiceID d)))
                    (resultMessage (ImageString D) (index (results f) (DefServiceID d)))
                    (inst f)\<rparr>"
      by (simp add: report_eq resultEvent_def LogEvent_def)
  qed
  have fin: "results (snd (applyChanges D i updates res)) = results ?g"
    by (simp add: run reportAndRelease_results)
  have "map (reportEvent D (results ?g)) (ordinaryPartition D updates) =
      map (resultEvent D (results ?g)) (ordinaryPartition D updates)"
    using st by (simp add: d reportEvent_result)
  then have ev: "drop (length (events i)) (events (inst (snd (applyChanges D i updates res)))) =
      map (startingEvent D) updates @ [EvPlatformApply (ordinaryPartition D updates)] @
      map (resultEvent D (results ?g)) (ordinaryPartition D updates) @
      (if selfPartition D updates \<noteq> [] then [EvPlatformApply (selfPartition D updates)] else [])"
    using assms by (simp add: applyChanges_trace [of D i updates res] fin)
  have nolog: "\<forall>e \<in> set (drop (length (events i))
        (events (inst (snd (applyChanges D i updates res))))). \<forall>keyvals. e \<noteq> EvLog keyvals"
    unfolding ev by (auto simp add: startingEvent_def resultEvent_def)
  from run st step nolog show ?thesis by (intro conjI)
qed

theorem reporting_only_success_or_failed_witness:
  "\<not> coverall (ordinaryApplyResult exampleDeps
        (platformAnswering [Some (ApplyError [''ns/web'' \<mapsto> ''boom''])])
        [webUpdate, fluxUpdate, apiUpdate]) \<and>
   map (\<lambda>d. Status (index (results (reportingFrame exampleDeps
        (platformAnswering [Some (ApplyError [''ns/web'' \<mapsto> ''boom''])])
        [webUpdate, fluxUpdate, apiUpdate]
        [''ns/api'' \<mapsto> \<lparr>Status = ReleaseStatusUnknown, Error = ''stale'',
                             PerContainer = []\<rparr>])) (DefServiceID d)))
     (defs (reportingFrame exampleDeps
        (platformAnswering [Some (ApplyError [''ns/web'' \<mapsto> ''boom''])])
        [webUpdate, fluxUpdate, apiUpdate]
        [''ns/api'' \<mapsto> \<lparr>Status = ReleaseStatusUnknown, Error = ''stale'',
                             PerContainer = []\<rparr>])) =
     [ReleaseStatusFailed, ReleaseStatusSuccess] \<and>
   applyChanges exampleDeps
        (platformAnswering [Some (ApplyError [''ns/web'' \<mapsto> ''boom''])])
        [webUpdate, fluxUpdate, apiUpdate]
        [''ns/api'' \<mapsto> \<lparr>Status = ReleaseStatusUnknown, Error = ''stale'',
                             PerContainer = []\<rparr>] =
     reportAndRelease exampleDeps
        (ordinaryApplyResult exampleDeps
           (platformAnswering [Some (ApplyError [''ns/web'' \<mapsto> ''boom''])])
           [webUpdate, fluxUpdate, apiUpdate])
        (reportingFrame exampleDeps
           (platformAnswering [Some (ApplyError [''ns/web'' \<mapsto> ''boom''])])
           [webUpdate, fluxUpdate, apiUpdate]
           [''ns/api'' \<mapsto> \<lparr>Status = ReleaseStatusUnknown, Error = ''stale'',
                                PerContainer = []\<rparr>])"
proof -
  let ?i = "platformAnswering [Some (ApplyError [''ns/web'' \<mapsto> ''boom''])]"
  let ?res = "[''ns/api'' \<mapsto> \<lparr>Status = ReleaseStatusUnknown, Error = ''stale'',
                                 PerContainer = []\<rparr>]"
  have h: "\<not> coverall (ordinaryApplyResult exampleDeps ?i [webUpdate, fluxUpdate, apiUpdate])"
    by (simp add: example_defs coverall_def)
  have s: "map (\<lambda>d. Status (index (results (reportingFrame exampleDeps ?i
        [webUpdate, fluxUpdate, apiUpdate] ?res)) (DefServiceID d)))
     (defs (reportingFrame exampleDeps ?i [webUpdate, fluxUpdate, apiUpdate] ?res)) =
     [ReleaseStatusFailed, ReleaseStatusSuccess]"
    by (simp add: reportingFrame_def example_defs markFailed_def primed_def index_def)
  from h s reporting_only_success_or_failed [OF h, of ?res, THEN conjunct1]
  show ?thesis by (intro conjI)
qed

end
